theory Spec2Isabelle
  imports
    Main
    "HOL-Library.Multiset"
    "HOL-Library.Sublist"
    "HOL-Library.Char_ord"
    "HOL-Library.List_Lexorder"
begin

section \<open>Data model of the Swap Type plugin (src/main.js)\<close>

text \<open>
  Identifiers (item ids, folder ids) and tag labels are JavaScript strings. On strings
  \<open>===\<close> and the SameValueZero test of \<open>Array.prototype.includes\<close> are equality, and
  the default comparator of \<open>Array.prototype.sort\<close> is the lexicographic order on code
  units, which is the linear order \<open>HOL-Library.List_Lexorder\<close> gives \<open>string\<close>.
\<close>

type_synonym ident = string

text \<open>
  An item of the host. \<open>folders\<close> and \<open>tags\<close> may be absent or null on the object the
  host hands out: that is \<open>None\<close>.
\<close>

record item =
  item_id :: ident
  folders :: "ident list option"
  tags :: "string list option"

text \<open>A folder display object \<open>{id, name}\<close>.\<close>

record folder =
  folder_id :: ident
  name :: string

text \<open>A JavaScript exception value; \<open>message\<close> is its \<open>.message\<close>.\<close>

datatype error = Error (message: string)

text \<open>The outcome \<open>{success, processedCount, errors}\<close> of a host swap operation.\<close>

record outcome =
  success :: bool
  processedCount :: int
  errors :: "string list"

text \<open>
  The plugin state: the four \<open>let\<close> variables declared at the top of \<open>plugin\<close>
  (lines 11-14).
\<close>

record plugin_state =
  selectedItems :: "item list"
  commonFolders :: "folder list"
  commonTags :: "string list"
  isRefreshing :: bool

definition initial_state :: plugin_state where
  "initial_state =
     \<lparr>selectedItems = [], commonFolders = [], commonTags = [], isRefreshing = False\<rparr>"

text \<open>
  What the plugin does to the outside, in the order it does it: calls of the host API,
  \<open>console.error\<close>, \<open>alert\<close>, and the rewrites of the three display areas. The
  \<open>console.log\<close> tracing and the loading spinner are left out.
\<close>

datatype effect =
    GetSelected
  | GetByIds "ident list"
  | HostSwapTagToFolder string "item list"
  | HostSwapFolderToTag folder "item list"
  | ConsoleError string error
  | Alert string
  | ItemCount nat
  | DisplayNoSelection
  | DisplayFolders "folder list"
  | DisplayTags "string list"
  | FoldersAreaProcessing
  | TagsAreaProcessing

text \<open>
  The host, as far as one refresh or one swap consults it: each of its operations either
  throws (\<open>Inl\<close>) or returns (\<open>Inr\<close>). \<open>getSelected\<close> may return null.
\<close>

record host =
  getSelected :: "error + item list option"
  getByIds :: "ident list \<Rightarrow> error + folder list"
  opSwapTagToFolder :: "string \<Rightarrow> item list \<Rightarrow> error + outcome"
  opSwapFolderToTag :: "folder \<Rightarrow> item list \<Rightarrow> error + outcome"

section \<open>The change test\<close>

text \<open>
  \<open>arraysEqual\<close> (lines 206-209): different lengths are unequal; otherwise \<open>every\<close>
  compares position by position with \<open>===\<close>. The index stays below the common length.
\<close>

definition arraysEqual :: "'a list \<Rightarrow> 'a list \<Rightarrow> bool" where
  "arraysEqual arr1 arr2 =
     (if length arr1 \<noteq> length arr2 then False
      else list_all (\<lambda>index. arr1 ! index = arr2 ! index) [0..<length arr1])"

text \<open>
  The change test of \<open>refreshData\<close> (lines 131-133, 165-167, 169-171): both sequences are
  sorted with \<open>.sort()\<close>, then \<open>!arraysEqual\<close>.
\<close>

definition hasChanged :: "'a::linorder list \<Rightarrow> 'a list \<Rightarrow> bool" where
  "hasChanged previous current = (\<not> arraysEqual (sort previous) (sort current))"

text \<open>
  The folder comparison (lines 165-167) sorts and compares the keys \<open>f.id || f\<close>: the
  identifier of a folder object, or the object itself when its identifier is empty or
  missing (falsy). An object is \<open>===\<close> to itself only, and after every
  \<open>findCommonFoldersAndTags\<close> the objects of \<open>commonFolders\<close> are other ones than those
  copied into \<open>previousFolders\<close>: mock objects just made, or the host's answer, taken to
  be made anew for each call. So a folder without identifier on either side leaves some
  position of the sorted key lists unequal, or the lengths differ: the comparison reports a
  change. Otherwise the keys are the identifiers.
\<close>

definition folderListChanged :: "folder list \<Rightarrow> folder list \<Rightarrow> bool" where
  "folderListChanged previousFolders currentFolders =
     (if list_ex (\<lambda>f. folder_id f = []) (previousFolders @ currentFolders) then True
      else hasChanged (map folder_id previousFolders) (map folder_id currentFolders))"

section \<open>Common folders and tags\<close>

text \<open>\<open>arr.includes(x)\<close> (the name \<open>includes\<close> is reserved in Isabelle).\<close>

definition includesJs :: "'a list \<Rightarrow> 'a \<Rightarrow> bool" where
  "includesJs arr x = (x \<in> set arr)"

text \<open>
  The filter of lines 226-231 (folders) and 254-259 (tags): when there is a first
  collection, keep the entries of it that \<open>every\<close> collection \<open>includes\<close>.
\<close>

definition filterCommon :: "'a list list \<Rightarrow> 'a list" where
  "filterCommon allLists =
     (if length allLists > 0
      then filter (\<lambda>x. list_all (\<lambda>itemList. includesJs itemList x) allLists) (hd allLists)
      else [])"

text \<open>\<open>item.folders || []\<close> and \<open>item.tags || []\<close> (lines 219-220).\<close>

definition foldersOf :: "item \<Rightarrow> ident list" where
  "foldersOf it = (case folders it of None \<Rightarrow> [] | Some fs \<Rightarrow> fs)"

definition tagsOf :: "item \<Rightarrow> string list" where
  "tagsOf it = (case tags it of None \<Rightarrow> [] | Some ts \<Rightarrow> ts)"

text \<open>The identifiers handed to the host lookup (\<open>commonFolderIds\<close>, line 227).\<close>

definition commonFolderIds :: "item list \<Rightarrow> ident list" where
  "commonFolderIds items = filterCommon (map foldersOf items)"

text \<open>The object synthesised when the lookup fails (line 244).\<close>

definition mockFolder :: "ident \<Rightarrow> folder" where
  "mockFolder i = \<lparr>folder_id = i, name = ''Folder '' @ i\<rparr>"

text \<open>
  \<open>findCommonFoldersAndTags\<close> (lines 211-263). The lookup \<open>getByIds\<close> is the host's; the
  \<open>try\<close>/\<open>catch\<close> around it turns a failure into mock objects.
\<close>

definition findCommonFoldersAndTags ::
  "(ident list \<Rightarrow> error + folder list) \<Rightarrow> plugin_state \<Rightarrow> effect list \<times> plugin_state" where
  "findCommonFoldersAndTags lookup s =
     (if length (selectedItems s) = 0
      then ([], s\<lparr>commonFolders := [], commonTags := []\<rparr>)
      else
        let allFolders = map foldersOf (selectedItems s);
            allTags = map tagsOf (selectedItems s);
            ids = filterCommon allFolders;
            (fx, fs) =
              (if length ids > 0
               then (case lookup ids of
                       Inr found \<Rightarrow> ([GetByIds ids], found)
                     | Inl e \<Rightarrow>
                         ([GetByIds ids, ConsoleError ''Error getting folder objects:'' e],
                          map mockFolder ids))
               else ([], []))
        in (fx, s\<lparr>commonFolders := fs, commonTags := filterCommon allTags\<rparr>))"

section \<open>The refresh cycle\<close>

text \<open>
  \<open>refreshData\<close> (lines 108-204), run from its call to its return with the host's answers
  taken from \<open>h\<close>. The guard of line 110 is outside the \<open>try\<close>; every other way out
  passes the \<open>finally\<close> block, which resets the flag.
\<close>

definition refreshData :: "host \<Rightarrow> plugin_state \<Rightarrow> effect list \<times> plugin_state" where
  "refreshData h s =
     (if isRefreshing s then ([], s)
      else
        let s0 = s\<lparr>isRefreshing := True\<rparr> in
        (case getSelected h of
           Inl e \<Rightarrow>
             ([GetSelected, ConsoleError ''Error refreshing data:'' e],
              s0\<lparr>isRefreshing := False\<rparr>)
         | Inr selection \<Rightarrow>
             let newSelectedItems = (case selection of None \<Rightarrow> [] | Some items \<Rightarrow> items);
                 oldIds = map item_id (selectedItems s0);
                 newIds = map item_id newSelectedItems;
                 selectionChanged = hasChanged oldIds newIds
             in
               if \<not> selectionChanged then ([GetSelected], s0\<lparr>isRefreshing := False\<rparr>)
               else
                 let s1 = s0\<lparr>selectedItems := newSelectedItems\<rparr> in
                 if length (selectedItems s1) = 0
                 then ([GetSelected, ItemCount (length (selectedItems s1)), DisplayNoSelection],
                       s1\<lparr>isRefreshing := False\<rparr>)
                 else
                   let previousFolders = commonFolders s1;
                       previousTags = commonTags s1;
                       (fx, s2) = findCommonFoldersAndTags (getByIds h) s1;
                       foldersChanged = folderListChanged previousFolders (commonFolders s2);
                       tagsChanged = hasChanged previousTags (commonTags s2)
                   in ([GetSelected, ItemCount (length (selectedItems s1))] @ fx @
                       (if foldersChanged then [DisplayFolders (commonFolders s2)] else []) @
                       (if tagsChanged then [DisplayTags (commonTags s2)] else []),
                       s2\<lparr>isRefreshing := False\<rparr>)))"

section \<open>The swap controller\<close>

text \<open>
  Decimal rendering of an integer inside a template literal. JavaScript prints an integer
  this way while its magnitude is below \<open>10^21\<close> (and in exponent form from there on); a
  count of processed items is far below.
\<close>

fun showNat :: "nat \<Rightarrow> string" where
  "showNat n =
     (if n < 10 then [''0123456789'' ! n]
      else showNat (n div 10) @ [''0123456789'' ! (n mod 10)])"

definition showInt :: "int \<Rightarrow> string" where
  "showInt i = (if i < 0 then ''-'' @ showNat (nat (- i)) else showNat (nat i))"

definition dquote :: string where
  "dquote = [CHR 0x22]"

definition newline :: string where
  "newline = [CHR 0x0A]"

text \<open>\<open>arr.join(sep)\<close>.\<close>

fun joinWith :: "string \<Rightarrow> string list \<Rightarrow> string" where
  "joinWith sep [] = []"
| "joinWith sep [x] = x"
| "joinWith sep (x # y # ys) = x @ sep @ joinWith sep (y # ys)"

text \<open>The message of lines 363 and 392, the same in both directions.\<close>

definition errorsMessage :: "outcome \<Rightarrow> string" where
  "errorsMessage result =
     ''Swap Completed with Errors: Processed '' @ showInt (processedCount result) @
     '' items successfully, but encountered '' @ showNat (length (errors result)) @
     '' errors:'' @ newline @ newline @ joinWith newline (take 3 (errors result)) @
     (if length (errors result) > 3 then newline @ ''...'' else [])"

text \<open>
  \<open>swapTagToFolder\<close> (lines 346-373), run from its call to its return with the host
  answering from \<open>h\<close>. An empty tag name is falsy and returns at once. The host operation
  works on the stored selection; a rejection goes to the \<open>catch\<close>, which alerts and does
  not refresh. After an outcome the alert comes first, then \<open>refreshData\<close>, which catches
  its own errors.
\<close>

definition swapTagToFolder :: "host \<Rightarrow> string \<Rightarrow> plugin_state \<Rightarrow> effect list \<times> plugin_state" where
  "swapTagToFolder h tagName s =
     (if tagName = [] then ([], s)
      else
        (case opSwapTagToFolder h tagName (selectedItems s) of
           Inl e \<Rightarrow>
             ([FoldersAreaProcessing, HostSwapTagToFolder tagName (selectedItems s),
               ConsoleError ''Error in swapTagToFolder:'' e,
               Alert (''Swap Failed: Failed to swap tag to folder: '' @ message e)], s)
         | Inr result \<Rightarrow>
             let msg =
                   (if success result
                    then ''Swap Complete: Successfully moved '' @
                         showInt (processedCount result) @ '' items to folder '' @
                         dquote @ tagName @ dquote @ '' and removed '' @
                         dquote @ tagName @ dquote @ '' tag.''
                    else errorsMessage result);
                 (fx, s') = refreshData h s
             in ([FoldersAreaProcessing, HostSwapTagToFolder tagName (selectedItems s),
                  Alert msg] @ fx, s')))"

text \<open>\<open>swapFolderToTag\<close> (lines 375-402); \<open>None\<close> is a null or undefined argument.\<close>

definition swapFolderToTag ::
  "host \<Rightarrow> folder option \<Rightarrow> plugin_state \<Rightarrow> effect list \<times> plugin_state" where
  "swapFolderToTag h folderArg s =
     (case folderArg of
        None \<Rightarrow> ([], s)
      | Some f \<Rightarrow>
        (case opSwapFolderToTag h f (selectedItems s) of
           Inl e \<Rightarrow>
             ([TagsAreaProcessing, HostSwapFolderToTag f (selectedItems s),
               ConsoleError ''Error in swapFolderToTag:'' e,
               Alert (''Swap Failed: Failed to swap folder to tag: '' @ message e)], s)
         | Inr result \<Rightarrow>
             let msg =
                   (if success result
                    then ''Swap Complete: Successfully moved '' @
                         showInt (processedCount result) @ '' items from folder '' @
                         dquote @ name f @ dquote @ '' and added '' @
                         dquote @ name f @ dquote @ '' as a tag.''
                    else errorsMessage result);
                 (fx, s') = refreshData h s
             in ([TagsAreaProcessing, HostSwapFolderToTag f (selectedItems s),
                  Alert msg] @ fx, s')))"

section \<open>The refresh cycle between its awaits\<close>

text \<open>
  \<open>refreshData\<close> is an async function. It gives control back at
  \<open>await eagle.item.getSelected()\<close> (line 124), at \<open>await eagle.folder.getByIds(...)\<close>
  inside \<open>findCommonFoldersAndTags\<close> (line 239), and at
  \<open>await findCommonFoldersAndTags()\<close> (line 162) until that call has returned; other
  handlers run in between. A cycle that waits there is a \<open>phase\<close>, holding the local
  variables the rest of the code reads: \<open>commonFolderIds\<close> and \<open>allTags\<close> of
  \<open>findCommonFoldersAndTags\<close>, \<open>previousFolders\<close> and \<open>previousTags\<close> of \<open>refreshData\<close>.
\<close>

datatype phase =
    AwaitSelected
  | AwaitFolders "ident list" "string list list" "folder list" "string list"
  | AwaitFindCommon "folder list" "string list"

text \<open>Lines 108-124: the guard, the flag, the call of \<open>getSelected\<close>.\<close>

definition refreshEnter :: "plugin_state \<Rightarrow> effect list \<times> plugin_state \<times> phase option" where
  "refreshEnter s =
     (if isRefreshing s then ([], s, None)
      else ([GetSelected], s\<lparr>isRefreshing := True\<rparr>, Some AwaitSelected))"

text \<open>
  Lines 124-162 and 211-239: from the answer of \<open>getSelected\<close> to the end of the cycle, to
  the call of \<open>getByIds\<close>, or to the return of \<open>findCommonFoldersAndTags\<close> when it has no
  identifier to look up.
\<close>

definition onSelected ::
  "error + item list option \<Rightarrow> plugin_state \<Rightarrow> effect list \<times> plugin_state \<times> phase option" where
  "onSelected r s =
     (case r of
        Inl e \<Rightarrow> ([ConsoleError ''Error refreshing data:'' e], s\<lparr>isRefreshing := False\<rparr>, None)
      | Inr selection \<Rightarrow>
          let newSelectedItems = (case selection of None \<Rightarrow> [] | Some items \<Rightarrow> items);
              selectionChanged =
                hasChanged (map item_id (selectedItems s)) (map item_id newSelectedItems)
          in
            if \<not> selectionChanged then ([], s\<lparr>isRefreshing := False\<rparr>, None)
            else
              let s1 = s\<lparr>selectedItems := newSelectedItems\<rparr> in
              if length (selectedItems s1) = 0
              then ([ItemCount (length (selectedItems s1)), DisplayNoSelection],
                    s1\<lparr>isRefreshing := False\<rparr>, None)
              else
                let previousFolders = commonFolders s1;
                    previousTags = commonTags s1;
                    allFolders = map foldersOf (selectedItems s1);
                    allTags = map tagsOf (selectedItems s1);
                    ids = filterCommon allFolders
                in
                  if length ids > 0
                  then ([ItemCount (length (selectedItems s1)), GetByIds ids], s1,
                        Some (AwaitFolders ids allTags previousFolders previousTags))
                  else ([ItemCount (length (selectedItems s1))],
                        s1\<lparr>commonFolders := [], commonTags := filterCommon allTags\<rparr>,
                        Some (AwaitFindCommon previousFolders previousTags)))"

text \<open>
  Lines 239-263: from the answer of \<open>getByIds\<close> to the return of
  \<open>findCommonFoldersAndTags\<close>.
\<close>

definition onFolders ::
  "error + folder list \<Rightarrow> ident list \<Rightarrow> string list list \<Rightarrow> plugin_state \<Rightarrow>
     effect list \<times> plugin_state" where
  "onFolders r ids allTags s =
     (let (fx, fs) =
            (case r of
               Inr found \<Rightarrow> ([], found)
             | Inl e \<Rightarrow> ([ConsoleError ''Error getting folder objects:'' e], map mockFolder ids))
      in (fx, s\<lparr>commonFolders := fs, commonTags := filterCommon allTags\<rparr>))"

text \<open>
  Lines 164-203: after \<open>findCommonFoldersAndTags\<close> has returned, the two comparisons, the
  redisplay, the \<open>finally\<close> block.
\<close>

definition refreshFinish ::
  "folder list \<Rightarrow> string list \<Rightarrow> plugin_state \<Rightarrow> effect list \<times> plugin_state" where
  "refreshFinish previousFolders previousTags s =
     (let foldersChanged = folderListChanged previousFolders (commonFolders s);
          tagsChanged = hasChanged previousTags (commonTags s)
      in ((if foldersChanged then [DisplayFolders (commonFolders s)] else []) @
          (if tagsChanged then [DisplayTags (commonTags s)] else []),
          s\<lparr>isRefreshing := False\<rparr>))"

text \<open>One cycle run without anything in between, the host answering from \<open>h\<close>.\<close>

definition runCycle :: "host \<Rightarrow> plugin_state \<Rightarrow> effect list \<times> plugin_state" where
  "runCycle h s =
     (case refreshEnter s of
        (fx0, s0, None) \<Rightarrow> (fx0, s0)
      | (fx0, s0, Some _) \<Rightarrow>
          (case onSelected (getSelected h) s0 of
             (fx1, s1, None) \<Rightarrow> (fx0 @ fx1, s1)
           | (fx1, s1, Some AwaitSelected) \<Rightarrow> (fx0 @ fx1, s1)
           | (fx1, s1, Some (AwaitFolders ids allTags previousFolders previousTags)) \<Rightarrow>
               let (fx2, s2) = onFolders (getByIds h ids) ids allTags s1;
                   (fx3, s3) = refreshFinish previousFolders previousTags s2
               in (fx0 @ fx1 @ fx2 @ fx3, s3)
           | (fx1, s1, Some (AwaitFindCommon previousFolders previousTags)) \<Rightarrow>
               let (fx3, s3) = refreshFinish previousFolders previousTags s1
               in (fx0 @ fx1 @ fx3, s3)))"

text \<open>
  What can happen to the plugin: \<open>refreshData\<close> is called (by the selection listener, the
  polling timer, the initial load or the end of a swap); the host answers the pending
  request of the cycle at position \<open>i\<close>; or the cycle at position \<open>i\<close> goes on after
  \<open>findCommonFoldersAndTags\<close> has returned. An answer nobody waits for changes nothing.
\<close>

datatype event =
    Invoke
  | SelectedReply nat "error + item list option"
  | FoldersReply nat "error + folder list"
  | FindCommonReturned nat

type_synonym config = "plugin_state \<times> phase list"

definition dropAt :: "nat \<Rightarrow> 'a list \<Rightarrow> 'a list" where
  "dropAt i xs = take i xs @ drop (Suc i) xs"

fun stepEvent :: "config \<Rightarrow> event \<Rightarrow> config" where
  "stepEvent (s, cycles) Invoke =
     (case refreshEnter s of
        (_, s', None) \<Rightarrow> (s', cycles)
      | (_, s', Some ph) \<Rightarrow> (s', cycles @ [ph]))"
| "stepEvent (s, cycles) (SelectedReply i r) =
     (if i < length cycles \<and> cycles ! i = AwaitSelected
      then (case onSelected r s of
              (_, s', None) \<Rightarrow> (s', dropAt i cycles)
            | (_, s', Some ph) \<Rightarrow> (s', cycles[i := ph]))
      else (s, cycles))"
| "stepEvent (s, cycles) (FoldersReply i r) =
     (if i < length cycles
      then (case cycles ! i of
              AwaitFolders ids allTags previousFolders previousTags \<Rightarrow>
                (snd (onFolders r ids allTags s),
                 cycles[i := AwaitFindCommon previousFolders previousTags])
            | _ \<Rightarrow> (s, cycles))
      else (s, cycles))"
| "stepEvent (s, cycles) (FindCommonReturned i) =
     (if i < length cycles
      then (case cycles ! i of
              AwaitFindCommon previousFolders previousTags \<Rightarrow>
                (snd (refreshFinish previousFolders previousTags s), dropAt i cycles)
            | _ \<Rightarrow> (s, cycles))
      else (s, cycles))"

definition runEvents :: "event list \<Rightarrow> config" where
  "runEvents evs = foldl stepEvent (initial_state, []) evs"

section \<open>The host contract and example data\<close>

text \<open>
  The spec takes the host's contract as given. For \<open>getByIds\<close> it is: a lookup that
  returns, returns objects for the identifiers it was asked for.
\<close>

definition lookupFaithful :: "(ident list \<Rightarrow> error + folder list) \<Rightarrow> ident list \<Rightarrow> bool" where
  "lookupFaithful lookup ids =
     (case lookup ids of Inr found \<Rightarrow> set (map folder_id found) = set ids | Inl e \<Rightarrow> True)"

text \<open>The items of the spec's scenario, further items, and two lookups: one that names every
  folder it is asked for, one that throws.\<close>

definition itemA :: item where
  "itemA = \<lparr>item_id = ''A'', folders = Some [''1'', ''2''], tags = Some [''x'']\<rparr>"

definition itemB :: item where
  "itemB = \<lparr>item_id = ''B'', folders = Some [''2'', ''3''], tags = Some [''x'', ''y'']\<rparr>"

definition itemBare :: item where
  "itemBare = \<lparr>item_id = ''C'', folders = None, tags = None\<rparr>"

definition item7 :: item where
  "item7 = \<lparr>item_id = ''D'', folders = Some [''7''], tags = Some []\<rparr>"

definition itemDup :: item where
  "itemDup =
     \<lparr>item_id = ''E'', folders = Some [''2'', ''1'', ''2''], tags = Some [''y'', ''x'', ''x'']\<rparr>"

definition namedLookup :: "ident list \<Rightarrow> error + folder list" where
  "namedLookup ids = Inr (map (\<lambda>i. \<lparr>folder_id = i, name = ''Name of '' @ i\<rparr>) ids)"

definition failingLookup :: "ident list \<Rightarrow> error + folder list" where
  "failingLookup ids = Inl (Error ''lookup failed'')"

definition selecting :: "item list \<Rightarrow> plugin_state" where
  "selecting items = initial_state\<lparr>selectedItems := items\<rparr>"

definition okOutcome :: "item list \<Rightarrow> outcome" where
  "okOutcome items = \<lparr>success = True, processedCount = int (length items), errors = []\<rparr>"

definition partialOutcome :: outcome where
  "partialOutcome = \<lparr>success = False, processedCount = 1, errors = [''B failed: locked'']\<rparr>"

text \<open>A host whose selection is \<open>items\<close>, whose lookup names every folder, whose swaps succeed.\<close>

definition hostSelecting :: "item list \<Rightarrow> host" where
  "hostSelecting items =
     \<lparr>getSelected = Inr (Some items), getByIds = namedLookup,
      opSwapTagToFolder = (\<lambda>tagName its. Inr (okOutcome its)),
      opSwapFolderToTag = (\<lambda>f its. Inr (okOutcome its))\<rparr>"

text \<open>The same host with a swap that fails for one item, as in the spec's scenario.\<close>

definition hostPartial :: "item list \<Rightarrow> host" where
  "hostPartial items =
     (hostSelecting items)\<lparr>opSwapTagToFolder := (\<lambda>tagName its. Inr partialOutcome)\<rparr>"

text \<open>A host whose \<open>getSelected\<close> throws.\<close>

definition hostFetchFailing :: host where
  "hostFetchFailing = (hostSelecting [])\<lparr>getSelected := Inl (Error ''fetch failed'')\<rparr>"

text \<open>The plugin after a refresh that found \<open>itemA\<close> and \<open>itemB\<close> selected.\<close>

definition stateAB :: plugin_state where
  "stateAB =
     \<lparr>selectedItems = [itemA, itemB],
      commonFolders = [\<lparr>folder_id = ''2'', name = ''Name of 2''\<rparr>],
      commonTags = [''x''], isRefreshing = False\<rparr>"

text \<open>
  The two items after the tag \<open>x\<close> was swapped into a folder: the tag is gone, the new
  folder \<open>9\<close> holds both.
\<close>

definition itemA' :: item where
  "itemA' = \<lparr>item_id = ''A'', folders = Some [''1'', ''2'', ''9''], tags = Some []\<rparr>"

definition itemB' :: item where
  "itemB' = \<lparr>item_id = ''B'', folders = Some [''2'', ''3'', ''9''], tags = Some [''y'']\<rparr>"

text \<open>
  The two items after folder \<open>2\<close> was swapped into a tag: the folder is gone, its name is a
  tag of both.
\<close>

definition itemA'' :: item where
  "itemA'' = \<lparr>item_id = ''A'', folders = Some [''1''], tags = Some [''x'', ''Name of 2'']\<rparr>"

definition itemB'' :: item where
  "itemB'' =
     \<lparr>item_id = ''B'', folders = Some [''3''], tags = Some [''x'', ''y'', ''Name of 2'']\<rparr>"

text \<open>
  The invariant of the reentrancy guard: at most one cycle is in flight, and the flag is
  up exactly while one is.
\<close>

definition guardInvariant :: "config \<Rightarrow> bool" where
  "guardInvariant c = (length (snd c) \<le> 1 \<and> (isRefreshing (fst c) = (snd c \<noteq> [])))"

section \<open>Properties of the change test\<close>

lemma arraysEqual_iff: "arraysEqual arr1 arr2 \<longleftrightarrow> arr1 = arr2"
proof -
  have "arraysEqual arr1 arr2 \<longleftrightarrow>
        length arr1 = length arr2 \<and> (\<forall>i<length arr1. arr1 ! i = arr2 ! i)"
    by (auto simp: arraysEqual_def list_all_iff)
  also have "\<dots> \<longleftrightarrow> arr1 = arr2"
    by (rule list_eq_iff_nth_eq [symmetric])
  finally show ?thesis .
qed

lemma sort_eq_iff_mset:
  fixes xs ys :: "'a::linorder list"
  shows "sort xs = sort ys \<longleftrightarrow> mset xs = mset ys"
proof
  assume "sort xs = sort ys"
  then have "mset (sort xs) = mset (sort ys)" by simp
  then show "mset xs = mset ys" by simp
next
  assume "mset xs = mset ys"
  then have "mset (sort ys) = mset xs" by simp
  then have "sort xs = sort ys"
    by (rule properties_for_sort) simp
  then show "sort xs = sort ys" .
qed

lemma hasChanged_iff_mset: "hasChanged previous current \<longleftrightarrow> mset previous \<noteq> mset current"
  by (simp add: hasChanged_def arraysEqual_iff sort_eq_iff_mset)

lemma folderListChanged_with_ids:
  assumes "list_all (\<lambda>f. folder_id f \<noteq> []) (previousFolders @ currentFolders)"
  shows "folderListChanged previousFolders currentFolders \<longleftrightarrow>
           mset (map folder_id previousFolders) \<noteq> mset (map folder_id currentFolders)"
  using assms
  by (auto simp: folderListChanged_def hasChanged_iff_mset list_all_iff list_ex_iff)

lemma folderListChanged_without_id:
  "list_ex (\<lambda>f. folder_id f = []) (previousFolders @ currentFolders) \<Longrightarrow>
   folderListChanged previousFolders currentFolders"
  by (simp add: folderListChanged_def)

section \<open>Properties of the common-set computation\<close>

lemma filterCommon_Cons:
  "filterCommon (l # ls) = filter (\<lambda>x. \<forall>ys\<in>set (l # ls). x \<in> set ys) l"
  by (simp add: filterCommon_def includesJs_def list_all_iff)

lemma filterCommon_Nil: "filterCommon [] = []"
  by (simp add: filterCommon_def)

lemma filterCommon_mem:
  "allLists \<noteq> [] \<Longrightarrow> x \<in> set (filterCommon allLists) \<longleftrightarrow> (\<forall>ys\<in>set allLists. x \<in> set ys)"
  by (cases allLists) (auto simp: filterCommon_Cons)

lemma filterCommon_empty_member:
  assumes e: "[] \<in> set allLists"
  shows "filterCommon allLists = []"
proof -
  from e have ne: "allLists \<noteq> []" by auto
  have "set (filterCommon allLists) \<subseteq> {}"
  proof
    fix x assume "x \<in> set (filterCommon allLists)"
    with filterCommon_mem [OF ne] e have "x \<in> set []" by blast
    then show "x \<in> {}" by simp
  qed
  then show ?thesis by simp
qed

lemma count_list_filter:
  "count_list (filter P xs) x = (if P x then count_list xs x else 0)"
  by (induction xs) auto

lemma findCommon_state:
  "selectedItems s \<noteq> [] \<Longrightarrow>
   snd (findCommonFoldersAndTags lookup s) =
     s\<lparr>commonFolders :=
         (if commonFolderIds (selectedItems s) = [] then []
          else case lookup (commonFolderIds (selectedItems s)) of
                 Inr found \<Rightarrow> found
               | Inl e \<Rightarrow> map mockFolder (commonFolderIds (selectedItems s))),
       commonTags := filterCommon (map tagsOf (selectedItems s))\<rparr>"
  by (simp add: findCommonFoldersAndTags_def commonFolderIds_def Let_def split: sum.splits)

lemma findCommon_effects:
  "selectedItems s \<noteq> [] \<Longrightarrow>
   fst (findCommonFoldersAndTags lookup s) =
     (if commonFolderIds (selectedItems s) = [] then []
      else case lookup (commonFolderIds (selectedItems s)) of
             Inr found \<Rightarrow> [GetByIds (commonFolderIds (selectedItems s))]
           | Inl e \<Rightarrow>
               [GetByIds (commonFolderIds (selectedItems s)),
                ConsoleError ''Error getting folder objects:'' e])"
  by (simp add: findCommonFoldersAndTags_def commonFolderIds_def Let_def split: sum.splits)

lemma findCommon_empty_selection:
  "selectedItems s = [] \<Longrightarrow>
   findCommonFoldersAndTags lookup s = ([], s\<lparr>commonFolders := [], commonTags := []\<rparr>)"
  by (simp add: findCommonFoldersAndTags_def)

lemma example_sets:
  "foldersOf itemA = [''1'', ''2'']" "foldersOf itemB = [''2'', ''3'']"
  "tagsOf itemA = [''x'']" "tagsOf itemB = [''x'', ''y'']"
  "foldersOf itemBare = []" "tagsOf itemBare = []"
  "foldersOf item7 = [''7'']" "tagsOf item7 = []"
  "foldersOf itemDup = [''2'', ''1'', ''2'']" "tagsOf itemDup = [''y'', ''x'', ''x'']"
  by (simp_all add: foldersOf_def tagsOf_def itemA_def itemB_def itemBare_def item7_def
      itemDup_def)

lemma selecting_simps:
  "selectedItems (selecting items) = items" "commonFolders (selecting items) = []"
  "commonTags (selecting items) = []" "isRefreshing (selecting items) = False"
  by (simp_all add: selecting_def initial_state_def)

text \<open>
  Claim C1. For a non-empty selection, an identifier is among the common folder
  identifiers exactly when every selected item's folder collection holds it; the
  identifiers of \<open>commonFolders\<close> are these whenever the host lookup fails (mock objects)
  or returns objects for the identifiers asked for; and a tag is in \<open>commonTags\<close> exactly
  when every selected item's tag collection holds it.
\<close>

theorem findCommon_is_intersection:
  assumes "selectedItems s \<noteq> []"
  shows "(i \<in> set (commonFolderIds (selectedItems s)) \<longleftrightarrow>
            (\<forall>it\<in>set (selectedItems s). i \<in> set (foldersOf it)))
       \<and> (lookupFaithful lookup (commonFolderIds (selectedItems s)) \<longrightarrow>
            (i \<in> set (map folder_id (commonFolders (snd (findCommonFoldersAndTags lookup s)))) \<longleftrightarrow>
               (\<forall>it\<in>set (selectedItems s). i \<in> set (foldersOf it))))
       \<and> (t \<in> set (commonTags (snd (findCommonFoldersAndTags lookup s))) \<longleftrightarrow>
            (\<forall>it\<in>set (selectedItems s). t \<in> set (tagsOf it)))"
proof -
  let ?ids = "commonFolderIds (selectedItems s)"
  let ?s' = "snd (findCommonFoldersAndTags lookup s)"
  have ne: "map foldersOf (selectedItems s) \<noteq> []" "map tagsOf (selectedItems s) \<noteq> []"
    using assms by simp_all
  have ids: "i \<in> set ?ids \<longleftrightarrow> (\<forall>it\<in>set (selectedItems s). i \<in> set (foldersOf it))"
    unfolding commonFolderIds_def by (simp add: filterCommon_mem [OF ne(1)])
  have tgs: "t \<in> set (commonTags ?s') \<longleftrightarrow> (\<forall>it\<in>set (selectedItems s). t \<in> set (tagsOf it))"
    by (simp add: findCommon_state [OF assms] filterCommon_mem [OF ne(2)])
  have fs: "set (map folder_id (commonFolders ?s')) = set ?ids"
    if "lookupFaithful lookup ?ids"
  proof (cases "?ids = []")
    case True
    then show ?thesis by (simp add: findCommon_state [OF assms])
  next
    case False
    show ?thesis
    proof (cases "lookup ?ids")
      case (Inl e)
      with False show ?thesis
        by (simp add: findCommon_state [OF assms] mockFolder_def comp_def)
    next
      case (Inr found)
      with False that show ?thesis
        by (simp add: findCommon_state [OF assms] lookupFaithful_def)
    qed
  qed
  from ids tgs fs show ?thesis by simp
qed

theorem findCommon_is_intersection_witness:
  "selectedItems (selecting [itemA, itemB]) \<noteq> []
   \<and> lookupFaithful namedLookup (commonFolderIds (selectedItems (selecting [itemA, itemB])))
   \<and> ''2'' \<in> set (map folder_id
        (commonFolders (snd (findCommonFoldersAndTags namedLookup (selecting [itemA, itemB])))))
   \<and> ''1'' \<notin> set (map folder_id
        (commonFolders (snd (findCommonFoldersAndTags namedLookup (selecting [itemA, itemB])))))
   \<and> ''x'' \<in> set (commonTags (snd (findCommonFoldersAndTags namedLookup (selecting [itemA, itemB]))))
   \<and> ''y'' \<notin> set (commonTags (snd (findCommonFoldersAndTags namedLookup (selecting [itemA, itemB]))))"
proof -
  let ?s = "selecting [itemA, itemB]"
  have ne: "selectedItems ?s \<noteq> []"
    by (simp add: selecting_simps)
  have ids: "commonFolderIds [itemA, itemB] = [''2'']"
    by (simp add: commonFolderIds_def filterCommon_def includesJs_def example_sets)
  have lf: "lookupFaithful namedLookup (commonFolderIds (selectedItems ?s))"
    by (simp add: selecting_simps ids lookupFaithful_def namedLookup_def)
  show ?thesis
    using ne lf
      findCommon_is_intersection [OF ne, of "''2''" namedLookup "''x''"]
      findCommon_is_intersection [OF ne, of "''1''" namedLookup "''y''"]
    by (simp add: selecting_simps example_sets)
qed

text \<open>
  Claim C5. When the host lookup of the common folder identifiers fails, the computation
  does not fail: \<open>commonFolders\<close> becomes one mock object \<open>{id, name: "Folder " + id}\<close> per
  identifier, in order, the failure is reported with \<open>console.error\<close> only, and an
  identifier \<open>7\<close> among them gives the object with name \<open>Folder 7\<close>.
\<close>

theorem lookup_failure_gives_mock_folders:
  assumes "lookup (commonFolderIds (selectedItems s)) = Inl e"
  shows "commonFolders (snd (findCommonFoldersAndTags lookup s)) =
           map mockFolder (commonFolderIds (selectedItems s))
       \<and> (i \<in> set (commonFolderIds (selectedItems s)) \<longrightarrow>
            \<lparr>folder_id = i, name = ''Folder '' @ i\<rparr>
              \<in> set (commonFolders (snd (findCommonFoldersAndTags lookup s))))
       \<and> (''7'' \<in> set (commonFolderIds (selectedItems s)) \<longrightarrow>
            \<lparr>folder_id = ''7'', name = ''Folder 7''\<rparr>
              \<in> set (commonFolders (snd (findCommonFoldersAndTags lookup s))))
       \<and> fst (findCommonFoldersAndTags lookup s) =
            (if commonFolderIds (selectedItems s) = [] then []
             else [GetByIds (commonFolderIds (selectedItems s)),
                   ConsoleError ''Error getting folder objects:'' e])"
proof -
  let ?ids = "commonFolderIds (selectedItems s)"
  let ?r = "findCommonFoldersAndTags lookup s"
  have cf: "commonFolders (snd ?r) = map mockFolder ?ids"
  proof (cases "selectedItems s = []")
    case True
    then show ?thesis
      by (simp add: findCommon_empty_selection commonFolderIds_def filterCommon_Nil)
  next
    case False
    from findCommon_state [OF False, of lookup] assms show ?thesis by simp
  qed
  have fx: "fst ?r = (if ?ids = [] then []
             else [GetByIds ?ids, ConsoleError ''Error getting folder objects:'' e])"
  proof (cases "selectedItems s = []")
    case True
    then show ?thesis
      by (simp add: findCommon_empty_selection commonFolderIds_def filterCommon_Nil)
  next
    case False
    from findCommon_effects [OF False, of lookup] assms show ?thesis by simp
  qed
  have mem: "\<lparr>folder_id = j, name = ''Folder '' @ j\<rparr> \<in> set (commonFolders (snd ?r))"
    if "j \<in> set ?ids" for j
  proof -
    from that have "mockFolder j \<in> set (map mockFolder ?ids)" by simp
    then show ?thesis by (simp only: cf mockFolder_def)
  qed
  from mem [of "''7''"] have seven:
    "''7'' \<in> set ?ids \<longrightarrow>
       \<lparr>folder_id = ''7'', name = ''Folder 7''\<rparr> \<in> set (commonFolders (snd ?r))"
    by simp
  from cf fx mem [of i] seven show ?thesis by blast
qed

theorem lookup_failure_gives_mock_folders_witness:
  "failingLookup (commonFolderIds (selectedItems (selecting [item7]))) = Inl (Error ''lookup failed'')
   \<and> commonFolders (snd (findCommonFoldersAndTags failingLookup (selecting [item7]))) =
       [\<lparr>folder_id = ''7'', name = ''Folder 7''\<rparr>]
   \<and> fst (findCommonFoldersAndTags failingLookup (selecting [item7])) =
       [GetByIds [''7''], ConsoleError ''Error getting folder objects:'' (Error ''lookup failed'')]"
proof -
  have ids: "commonFolderIds [item7] = [''7'']"
    by (simp add: commonFolderIds_def filterCommon_def includesJs_def example_sets)
  have f: "failingLookup (commonFolderIds (selectedItems (selecting [item7]))) =
             Inl (Error ''lookup failed'')"
    by (simp add: failingLookup_def)
  show ?thesis
    using f
      lookup_failure_gives_mock_folders
        [of failingLookup "selecting [item7]" "Error ''lookup failed''" "''7''"]
    by (simp add: selecting_simps ids mockFolder_def)
qed

text \<open>
  Claim C9. A selected item whose \<open>folders\<close> is absent or null counts as having no
  folders: the computation makes no lookup and stores no common folders. The same holds for
  an absent \<open>tags\<close> and the common tags.
\<close>

theorem missing_collection_counts_as_empty:
  assumes "it \<in> set (selectedItems s)"
  shows "(folders it = None \<longrightarrow>
            foldersOf it = []
            \<and> findCommonFoldersAndTags lookup s =
                ([], s\<lparr>commonFolders := [], commonTags := filterCommon (map tagsOf (selectedItems s))\<rparr>))
       \<and> (tags it = None \<longrightarrow>
            tagsOf it = [] \<and> commonTags (snd (findCommonFoldersAndTags lookup s)) = [])"
proof -
  from assms have ne: "selectedItems s \<noteq> []" by auto
  have a: "commonFolderIds (selectedItems s) = []" if "folders it = None"
  proof -
    from that have "foldersOf it = []" by (simp add: foldersOf_def)
    with assms have "[] \<in> set (map foldersOf (selectedItems s))" by force
    then show ?thesis unfolding commonFolderIds_def by (rule filterCommon_empty_member)
  qed
  have b: "filterCommon (map tagsOf (selectedItems s)) = []" if "tags it = None"
  proof -
    from that have "tagsOf it = []" by (simp add: tagsOf_def)
    with assms have "[] \<in> set (map tagsOf (selectedItems s))" by force
    then show ?thesis by (rule filterCommon_empty_member)
  qed
  have c: "findCommonFoldersAndTags lookup s =
      ([], s\<lparr>commonFolders := [], commonTags := filterCommon (map tagsOf (selectedItems s))\<rparr>)"
    if "folders it = None"
    using findCommon_state [OF ne, of lookup] findCommon_effects [OF ne, of lookup] a [OF that]
    by (simp add: prod_eq_iff)
  show ?thesis
    using a b c findCommon_state [OF ne, of lookup]
    by (simp add: foldersOf_def tagsOf_def)
qed

theorem missing_collection_counts_as_empty_witness:
  "itemBare \<in> set (selectedItems (selecting [itemA, itemBare]))
   \<and> folders itemBare = None \<and> tags itemBare = None
   \<and> commonFolders (snd (findCommonFoldersAndTags namedLookup (selecting [itemA, itemBare]))) = []
   \<and> commonTags (snd (findCommonFoldersAndTags namedLookup (selecting [itemA, itemBare]))) = []
   \<and> fst (findCommonFoldersAndTags namedLookup (selecting [itemA, itemBare])) = []"
proof -
  have m: "itemBare \<in> set (selectedItems (selecting [itemA, itemBare]))"
    by (simp add: selecting_simps)
  have n: "folders itemBare = None" "tags itemBare = None"
    by (simp_all add: itemBare_def)
  note t = missing_collection_counts_as_empty [OF m, of namedLookup]
  from t n have a: "findCommonFoldersAndTags namedLookup (selecting [itemA, itemBare]) =
      ([], selecting [itemA, itemBare]
            \<lparr>commonFolders := [],
               commonTags := filterCommon (map tagsOf (selectedItems (selecting [itemA, itemBare])))\<rparr>)"
    by blast
  from t n have b:
    "commonTags (snd (findCommonFoldersAndTags namedLookup (selecting [itemA, itemBare]))) = []"
    by blast
  from a have c:
    "commonFolders (snd (findCommonFoldersAndTags namedLookup (selecting [itemA, itemBare]))) = []"
    "fst (findCommonFoldersAndTags namedLookup (selecting [itemA, itemBare])) = []"
    by simp_all
  from m n b c show ?thesis by blast
qed

text \<open>
  Claim C10. For a non-empty selection, the common folder identifiers (the ones handed to
  the host lookup) and the common tags are each a subsequence of the first item's
  collection, in its order, and every entry they keep occurs as often as in the first
  item's collection.
\<close>

theorem common_is_sublist_of_first:
  assumes "selectedItems s = first # rest"
  shows "subseq (commonFolderIds (selectedItems s)) (foldersOf first)
       \<and> (x \<in> set (commonFolderIds (selectedItems s)) \<longrightarrow>
            count_list (commonFolderIds (selectedItems s)) x = count_list (foldersOf first) x)
       \<and> subseq (commonTags (snd (findCommonFoldersAndTags lookup s))) (tagsOf first)
       \<and> (t \<in> set (commonTags (snd (findCommonFoldersAndTags lookup s))) \<longrightarrow>
            count_list (commonTags (snd (findCommonFoldersAndTags lookup s))) t =
              count_list (tagsOf first) t)
       \<and> fst (findCommonFoldersAndTags lookup s) =
            (if commonFolderIds (selectedItems s) = [] then []
             else case lookup (commonFolderIds (selectedItems s)) of
                    Inr found \<Rightarrow> [GetByIds (commonFolderIds (selectedItems s))]
                  | Inl e \<Rightarrow>
                      [GetByIds (commonFolderIds (selectedItems s)),
                       ConsoleError ''Error getting folder objects:'' e])"
proof -
  from assms have ne: "selectedItems s \<noteq> []" by simp
  let ?P = "\<lambda>x. \<forall>ys\<in>set (map foldersOf (first # rest)). x \<in> set ys"
  let ?Q = "\<lambda>x. \<forall>ys\<in>set (map tagsOf (first # rest)). x \<in> set ys"
  have ids: "commonFolderIds (selectedItems s) = filter ?P (foldersOf first)"
    by (simp add: assms commonFolderIds_def filterCommon_Cons)
  have tgs: "commonTags (snd (findCommonFoldersAndTags lookup s)) = filter ?Q (tagsOf first)"
    by (simp add: findCommon_state [OF ne] assms filterCommon_Cons)
  show ?thesis
    unfolding tgs ids findCommon_effects [OF ne] ids
    by (simp add: count_list_filter)
qed

theorem common_is_sublist_of_first_witness:
  "selectedItems (selecting [itemDup, itemB]) = itemDup # [itemB]
   \<and> commonFolderIds [itemDup, itemB] = [''2'', ''2'']
   \<and> subseq [''2'', ''2''] [''2'', ''1'', ''2'']
   \<and> count_list [''2'', ''2''] ''2'' = count_list [''2'', ''1'', ''2''] ''2''
   \<and> commonTags (snd (findCommonFoldersAndTags namedLookup (selecting [itemDup, itemB]))) = [''y'', ''x'', ''x'']"
proof -
  have sel: "selectedItems (selecting [itemDup, itemB]) = itemDup # [itemB]"
    by (simp add: selecting_simps)
  have ids: "commonFolderIds [itemDup, itemB] = [''2'', ''2'']"
    by (simp add: commonFolderIds_def filterCommon_def includesJs_def example_sets)
  have tgs: "commonTags (snd (findCommonFoldersAndTags namedLookup (selecting [itemDup, itemB])))
      = [''y'', ''x'', ''x'']"
    by (simp add: findCommon_state selecting_simps filterCommon_def includesJs_def example_sets)
  show ?thesis
    using sel ids tgs common_is_sublist_of_first [OF sel, of "''2''" namedLookup "''x''"]
    by (simp add: selecting_simps example_sets)
qed

text \<open>
  Claim C2, as amended. The change test reports a change exactly when the two sequences
  differ as multisets; for sequences without repeated entries that is exactly when they
  differ as sets. The test is symmetric, and reports no change between reorderings.
\<close>

theorem hasChanged_is_multiset_difference:
  fixes A B :: "'a::linorder list"
  shows "(hasChanged A B \<longleftrightarrow> mset A \<noteq> mset B)
       \<and> (distinct A \<and> distinct B \<longrightarrow> (hasChanged A B \<longleftrightarrow> set A \<noteq> set B))
       \<and> (hasChanged A B \<longleftrightarrow> hasChanged B A)
       \<and> (mset A = mset B \<longrightarrow> \<not> hasChanged A B)"
proof -
  have "set A = set B \<longleftrightarrow> mset A = mset B" if "distinct A" "distinct B"
    using that by (rule set_eq_iff_mset_eq_distinct)
  then show ?thesis
    by (auto simp: hasChanged_iff_mset)
qed

theorem hasChanged_is_multiset_difference_witness:
  "distinct [''b'', ''a''] \<and> distinct [''a'', ''b'']
   \<and> mset [''b'', ''a''] = mset [''a'', ''b'']
   \<and> \<not> hasChanged [''b'', ''a''] [''a'', ''b'']
   \<and> hasChanged [''a''] [''a'', ''b'']"
  using hasChanged_is_multiset_difference [of "[''b'', ''a'']" "[''a'', ''b'']"]
        hasChanged_is_multiset_difference [of "[''a'']" "[''a'', ''b'']"]
  by simp

text \<open>
  Claim C2 as stated fails when an entry is repeated: \<open>["x", "x"]\<close> and \<open>["x"]\<close> are
  the same set, and the test reports a change, because the lengths differ.
\<close>

theorem hasChanged_set_counterexample:
  "\<not> (hasChanged [''x'', ''x''] [''x''] \<longleftrightarrow> set [''x'', ''x''] \<noteq> set [''x''])"
  by (simp add: hasChanged_def arraysEqual_def)

section \<open>Properties of the refresh cycle\<close>

lemma host_simps:
  "getSelected (hostSelecting items) = Inr (Some items)"
  "getByIds (hostSelecting items) = namedLookup"
  "opSwapTagToFolder (hostSelecting items) tagName its = Inr (okOutcome its)"
  "opSwapFolderToTag (hostSelecting items) f its = Inr (okOutcome its)"
  "getSelected (hostPartial items) = Inr (Some items)"
  "getByIds (hostPartial items) = namedLookup"
  "opSwapTagToFolder (hostPartial items) tagName its = Inr partialOutcome"
  by (simp_all add: hostSelecting_def hostPartial_def)

lemma example_ids:
  "item_id itemA = ''A''" "item_id itemB = ''B''"
  "item_id itemA' = ''A''" "item_id itemB' = ''B''"
  "item_id itemA'' = ''A''" "item_id itemB'' = ''B''"
  by (simp_all add: itemA_def itemB_def itemA'_def itemB'_def itemA''_def itemB''_def)


lemma flag_reset_id: "\<not> isRefreshing s \<Longrightarrow> s\<lparr>isRefreshing := False\<rparr> = s"
  by simp

lemma refreshData_busy: "isRefreshing s \<Longrightarrow> refreshData h s = ([], s)"
  by (simp add: refreshData_def)

lemma refreshData_fetch_fails:
  "\<not> isRefreshing s \<Longrightarrow> getSelected h = Inl e \<Longrightarrow>
   refreshData h s = ([GetSelected, ConsoleError ''Error refreshing data:'' e], s)"
  by (simp add: refreshData_def)

lemma refreshData_same_ids:
  assumes "\<not> isRefreshing s" and "getSelected h = Inr sel"
    and "mset (map item_id (case sel of None \<Rightarrow> [] | Some items \<Rightarrow> items)) =
         mset (map item_id (selectedItems s))"
  shows "refreshData h s = ([GetSelected], s)"
  using assms by (simp add: refreshData_def hasChanged_iff_mset Let_def)

lemma refreshData_becomes_empty:
  assumes "\<not> isRefreshing s" and "getSelected h = Inr sel"
    and "(case sel of None \<Rightarrow> [] | Some items \<Rightarrow> items) = []" and "selectedItems s \<noteq> []"
  shows "refreshData h s =
           ([GetSelected, ItemCount 0, DisplayNoSelection], s\<lparr>selectedItems := []\<rparr>)"
  using assms by (simp add: refreshData_def hasChanged_iff_mset Let_def)

lemma refreshData_resets_flag:
  "\<not> isRefreshing s \<Longrightarrow> \<not> isRefreshing (snd (refreshData h s))"
  by (simp add: refreshData_def Let_def split: sum.splits prod.splits)

lemma refreshData_fetches:
  "\<not> isRefreshing s \<Longrightarrow> \<exists>fx. fst (refreshData h s) = GetSelected # fx"
  by (simp add: refreshData_def Let_def split: sum.splits prod.splits)

text \<open>
  Claim C6. When \<open>getSelected\<close> throws in a refresh that was not dropped, the cycle does
  nothing but log the error: \<open>selectedItems\<close>, \<open>commonFolders\<close> and \<open>commonTags\<close> keep
  their values, the flag is down again, and the next refresh runs as if the failed one had
  not happened, fetching the selection anew.
\<close>

theorem fetch_failure_leaves_state:
  assumes "getSelected h = Inl e" and "\<not> isRefreshing s"
  shows "refreshData h s = ([GetSelected, ConsoleError ''Error refreshing data:'' e], s)
       \<and> selectedItems (snd (refreshData h s)) = selectedItems s
       \<and> commonFolders (snd (refreshData h s)) = commonFolders s
       \<and> commonTags (snd (refreshData h s)) = commonTags s
       \<and> \<not> isRefreshing (snd (refreshData h s))
       \<and> refreshData h' (snd (refreshData h s)) = refreshData h' s
       \<and> (\<exists>fx. fst (refreshData h' (snd (refreshData h s))) = GetSelected # fx)"
proof -
  have r: "refreshData h s = ([GetSelected, ConsoleError ''Error refreshing data:'' e], s)"
    using assms by (simp add: refreshData_fetch_fails)
  from refreshData_fetches [OF assms(2), of h'] r assms(2) show ?thesis by simp
qed

theorem fetch_failure_leaves_state_witness:
  "getSelected hostFetchFailing = Inl (Error ''fetch failed'') \<and> \<not> isRefreshing stateAB
   \<and> refreshData hostFetchFailing stateAB =
       ([GetSelected, ConsoleError ''Error refreshing data:'' (Error ''fetch failed'')], stateAB)
   \<and> refreshData (hostSelecting [itemA]) (snd (refreshData hostFetchFailing stateAB)) =
       refreshData (hostSelecting [itemA]) stateAB"
proof -
  have a: "getSelected hostFetchFailing = Inl (Error ''fetch failed'')"
    by (simp add: hostFetchFailing_def)
  have b: "\<not> isRefreshing stateAB"
    by (simp add: stateAB_def)
  from a b fetch_failure_leaves_state [OF a b, of "hostSelecting [itemA]"] show ?thesis
    by blast
qed

text \<open>
  Claim C7. When the fetched selection has the same set of item identifiers as the stored
  one, in any order, the refresh stops after the fetch: the state, and with it
  \<open>commonFolders\<close> and \<open>commonTags\<close>, is unchanged and nothing is looked up or
  redisplayed. A selection lists each selected item once. The guard itself compares the
  identifiers with their multiplicities, which the second part states.
\<close>

theorem unchanged_selection_short_circuits:
  assumes "getSelected h = Inr sel"
    and "new = (case sel of None \<Rightarrow> [] | Some items \<Rightarrow> items)"
  shows "(distinct (map item_id new) \<and> distinct (map item_id (selectedItems s))
            \<and> set (map item_id new) = set (map item_id (selectedItems s)) \<longrightarrow>
          snd (refreshData h s) = s
          \<and> commonFolders (snd (refreshData h s)) = commonFolders s
          \<and> commonTags (snd (refreshData h s)) = commonTags s
          \<and> fst (refreshData h s) = (if isRefreshing s then [] else [GetSelected]))
       \<and> (mset (map item_id new) = mset (map item_id (selectedItems s)) \<longrightarrow>
          snd (refreshData h s) = s
          \<and> fst (refreshData h s) = (if isRefreshing s then [] else [GetSelected]))"
proof -
  have m: "snd (refreshData h s) = s
          \<and> fst (refreshData h s) = (if isRefreshing s then [] else [GetSelected])"
    if "mset (map item_id new) = mset (map item_id (selectedItems s))"
  proof (cases "isRefreshing s")
    case True
    then show ?thesis by (simp add: refreshData_busy)
  next
    case False
    from refreshData_same_ids [OF False assms(1)] that assms(2) False show ?thesis by simp
  qed
  have "mset (map item_id new) = mset (map item_id (selectedItems s))"
    if "distinct (map item_id new)" "distinct (map item_id (selectedItems s))"
       "set (map item_id new) = set (map item_id (selectedItems s))"
    using set_eq_iff_mset_eq_distinct [OF that(1) that(2)] that(3) by blast
  with m have d: "snd (refreshData h s) = s
          \<and> fst (refreshData h s) = (if isRefreshing s then [] else [GetSelected])"
    if "distinct (map item_id new)" "distinct (map item_id (selectedItems s))"
       "set (map item_id new) = set (map item_id (selectedItems s))"
    using that by blast
  have "snd (refreshData h s) = s
          \<and> commonFolders (snd (refreshData h s)) = commonFolders s
          \<and> commonTags (snd (refreshData h s)) = commonTags s
          \<and> fst (refreshData h s) = (if isRefreshing s then [] else [GetSelected])"
    if "distinct (map item_id new)" "distinct (map item_id (selectedItems s))"
       "set (map item_id new) = set (map item_id (selectedItems s))"
    using d [OF that] by simp
  with m show ?thesis by blast
qed

theorem unchanged_selection_short_circuits_witness:
  "getSelected (hostSelecting [itemB, itemA]) = Inr (Some [itemB, itemA])
   \<and> distinct (map item_id [itemB, itemA]) \<and> distinct (map item_id (selectedItems stateAB))
   \<and> set (map item_id [itemB, itemA]) = set (map item_id (selectedItems stateAB))
   \<and> refreshData (hostSelecting [itemB, itemA]) stateAB = ([GetSelected], stateAB)"
proof -
  have a: "getSelected (hostSelecting [itemB, itemA]) = Inr (Some [itemB, itemA])"
    by (simp add: hostSelecting_def)
  have b: "[itemB, itemA] = (case Some [itemB, itemA] of None \<Rightarrow> [] | Some items \<Rightarrow> items)"
    by simp
  have c: "distinct (map item_id [itemB, itemA])" "distinct (map item_id (selectedItems stateAB))"
    "set (map item_id [itemB, itemA]) = set (map item_id (selectedItems stateAB))"
    "\<not> isRefreshing stateAB"
    by (auto simp: stateAB_def itemA_def itemB_def)
  from a c unchanged_selection_short_circuits [OF a b, of stateAB] show ?thesis
    by (simp add: prod_eq_iff)
qed

text \<open>
  Claim C3, on the code. After a refresh found \<open>itemA\<close> and \<open>itemB\<close>, a refresh that
  finds nothing selected empties \<open>selectedItems\<close> and shows the no-selection text, and
  returns at line 154 before \<open>findCommonFoldersAndTags\<close>: \<open>commonFolders\<close> and
  \<open>commonTags\<close> keep folder \<open>2\<close> and tag \<open>x\<close>. Selecting the two items again then finds
  the old sets unchanged and redisplays neither area. \<open>findCommonFoldersAndTags\<close> itself
  would have emptied both.
\<close>

theorem empty_selection_keeps_common_sets:
  "snd (refreshData (hostSelecting [itemA, itemB]) initial_state) = stateAB
   \<and> refreshData (hostSelecting []) stateAB =
       ([GetSelected, ItemCount 0, DisplayNoSelection], stateAB\<lparr>selectedItems := []\<rparr>)
   \<and> commonFolders (snd (refreshData (hostSelecting []) stateAB)) =
       [\<lparr>folder_id = ''2'', name = ''Name of 2''\<rparr>]
   \<and> commonTags (snd (refreshData (hostSelecting []) stateAB)) = [''x'']
   \<and> fst (refreshData (hostSelecting [itemA, itemB])
            (snd (refreshData (hostSelecting []) stateAB))) =
       [GetSelected, ItemCount 2, GetByIds [''2'']]
   \<and> snd (findCommonFoldersAndTags namedLookup (stateAB\<lparr>selectedItems := []\<rparr>)) =
       \<lparr>selectedItems = [], commonFolders = [], commonTags = [], isRefreshing = False\<rparr>"
proof -
  have ids: "commonFolderIds [itemA, itemB] = [''2'']"
    by (simp add: commonFolderIds_def filterCommon_def includesJs_def example_sets)
  have tgs: "filterCommon [tagsOf itemA, tagsOf itemB] = [''x'']"
    by (simp add: filterCommon_def includesJs_def example_sets)
  have fc: "findCommonFoldersAndTags namedLookup
        \<lparr>selectedItems = [itemA, itemB], commonFolders = cf, commonTags = ct, isRefreshing = b\<rparr> =
      ([GetByIds [''2'']],
       \<lparr>selectedItems = [itemA, itemB],
        commonFolders = [\<lparr>folder_id = ''2'', name = ''Name of 2''\<rparr>],
        commonTags = [''x''], isRefreshing = b\<rparr>)" for cf ct b
    using findCommon_state [of "\<lparr>selectedItems = [itemA, itemB], commonFolders = cf,
        commonTags = ct, isRefreshing = b\<rparr>" namedLookup]
      findCommon_effects [of "\<lparr>selectedItems = [itemA, itemB], commonFolders = cf,
        commonTags = ct, isRefreshing = b\<rparr>" namedLookup]
    by (simp add: ids tgs namedLookup_def prod_eq_iff)
  have ch: "hasChanged [] [''A'', ''B'']" "hasChanged [] [''2'']" "hasChanged [] [''x'']"
    "hasChanged [''A'', ''B''] []" "\<not> hasChanged [''2''] [''2'']" "\<not> hasChanged [''x''] [''x'']"
    "folderListChanged [] [\<lparr>folder_id = ''2'', name = ''Name of 2''\<rparr>]"
    "\<not> folderListChanged [\<lparr>folder_id = ''2'', name = ''Name of 2''\<rparr>]
         [\<lparr>folder_id = ''2'', name = ''Name of 2''\<rparr>]"
    by (simp_all add: folderListChanged_def hasChanged_iff_mset)
  have g: "getSelected (hostSelecting items) = Inr (Some items)"
    "getByIds (hostSelecting items) = namedLookup" for items
    by (simp_all add: hostSelecting_def)
  have r1: "snd (refreshData (hostSelecting [itemA, itemB]) initial_state) = stateAB"
    by (simp add: refreshData_def initial_state_def g fc ch itemA_def [THEN arg_cong, of item_id]
          itemB_def [THEN arg_cong, of item_id] stateAB_def)
  have r2: "refreshData (hostSelecting []) stateAB =
       ([GetSelected, ItemCount 0, DisplayNoSelection], stateAB\<lparr>selectedItems := []\<rparr>)"
    by (rule refreshData_becomes_empty [where sel = "Some []"]) (simp_all add: g stateAB_def)
  have r3: "fst (refreshData (hostSelecting [itemA, itemB]) (stateAB\<lparr>selectedItems := []\<rparr>)) =
       [GetSelected, ItemCount 2, GetByIds [''2'']]"
    by (simp add: refreshData_def g fc ch itemA_def [THEN arg_cong, of item_id]
          itemB_def [THEN arg_cong, of item_id] stateAB_def)
  have r4: "snd (findCommonFoldersAndTags namedLookup (stateAB\<lparr>selectedItems := []\<rparr>)) =
       \<lparr>selectedItems = [], commonFolders = [], commonTags = [], isRefreshing = False\<rparr>"
    by (simp add: findCommon_empty_selection stateAB_def)
  from r1 r2 r3 r4 show ?thesis
    by (simp add: stateAB_def)
qed

section \<open>Properties of the swap controller\<close>

lemma swapTagToFolder_outcome:
  assumes "tagName \<noteq> []" and "opSwapTagToFolder h tagName (selectedItems s) = Inr result"
  shows "swapTagToFolder h tagName s =
     ([FoldersAreaProcessing, HostSwapTagToFolder tagName (selectedItems s),
       Alert (if success result
              then ''Swap Complete: Successfully moved '' @
                   showInt (processedCount result) @ '' items to folder '' @
                   dquote @ tagName @ dquote @ '' and removed '' @
                   dquote @ tagName @ dquote @ '' tag.''
              else errorsMessage result)] @ fst (refreshData h s),
      snd (refreshData h s))"
  using assms by (simp add: swapTagToFolder_def Let_def split: prod.splits)

lemma swapFolderToTag_outcome:
  assumes "opSwapFolderToTag h f (selectedItems s) = Inr result"
  shows "swapFolderToTag h (Some f) s =
     ([TagsAreaProcessing, HostSwapFolderToTag f (selectedItems s),
       Alert (if success result
              then ''Swap Complete: Successfully moved '' @
                   showInt (processedCount result) @ '' items from folder '' @
                   dquote @ name f @ dquote @ '' and added '' @
                   dquote @ name f @ dquote @ '' as a tag.''
              else errorsMessage result)] @ fst (refreshData h s),
      snd (refreshData h s))"
  using assms by (simp add: swapFolderToTag_def Let_def split: prod.splits)

text \<open>
  Claim C4, on the code. With \<open>itemA\<close> and \<open>itemB\<close> selected, a swap of tag \<open>x\<close> calls
  the host operation once, alerts its outcome (complete, or completed with the one error
  and one processed item) and calls \<open>refreshData\<close>. The host then reports the same two
  items, without the tag and in the new folder; their identifiers are the stored ones, so
  the refresh returns at line 141 after the fetch and the state is what it was: the common
  tags still hold \<open>x\<close>, where a recomputation on the fetched items gives no common tag
  and the folders \<open>2\<close> and \<open>9\<close>. The swap of folder \<open>2\<close> into a tag ends the same way.
\<close>

theorem swap_refresh_recomputes_nothing:
  "swapTagToFolder (hostSelecting [itemA', itemB']) ''x'' stateAB =
     ([FoldersAreaProcessing, HostSwapTagToFolder ''x'' [itemA, itemB],
       Alert (''Swap Complete: Successfully moved 2 items to folder '' @ dquote @ ''x'' @
              dquote @ '' and removed '' @ dquote @ ''x'' @ dquote @ '' tag.''),
       GetSelected], stateAB)
   \<and> swapTagToFolder (hostPartial [itemA', itemB']) ''x'' stateAB =
     ([FoldersAreaProcessing, HostSwapTagToFolder ''x'' [itemA, itemB],
       Alert (''Swap Completed with Errors: Processed 1 items successfully, '' @
              ''but encountered 1 errors:'' @ newline @ newline @ ''B failed: locked''),
       GetSelected], stateAB)
   \<and> commonTags (snd (findCommonFoldersAndTags namedLookup
         (stateAB\<lparr>selectedItems := [itemA', itemB']\<rparr>))) = []
   \<and> map folder_id (commonFolders (snd (findCommonFoldersAndTags namedLookup
         (stateAB\<lparr>selectedItems := [itemA', itemB']\<rparr>)))) = [''2'', ''9'']
   \<and> swapFolderToTag (hostSelecting [itemA'', itemB''])
         (Some \<lparr>folder_id = ''2'', name = ''Name of 2''\<rparr>) stateAB =
     ([TagsAreaProcessing,
       HostSwapFolderToTag \<lparr>folder_id = ''2'', name = ''Name of 2''\<rparr> [itemA, itemB],
       Alert (''Swap Complete: Successfully moved 2 items from folder '' @ dquote @
              ''Name of 2'' @ dquote @ '' and added '' @ dquote @ ''Name of 2'' @ dquote @
              '' as a tag.''),
       GetSelected], stateAB)
   \<and> commonFolders (snd (findCommonFoldersAndTags namedLookup
         (stateAB\<lparr>selectedItems := [itemA'', itemB'']\<rparr>))) = []"
proof -
  have nb: "\<not> isRefreshing stateAB" and sel: "selectedItems stateAB = [itemA, itemB]"
    by (simp_all add: stateAB_def)
  have r1: "refreshData (hostSelecting [itemA', itemB']) stateAB = ([GetSelected], stateAB)"
    by (rule refreshData_same_ids [OF nb, where sel = "Some [itemA', itemB']"])
       (simp_all add: host_simps sel example_ids)
  have r2: "refreshData (hostPartial [itemA', itemB']) stateAB = ([GetSelected], stateAB)"
    by (rule refreshData_same_ids [OF nb, where sel = "Some [itemA', itemB']"])
       (simp_all add: host_simps sel example_ids)
  have r3: "refreshData (hostSelecting [itemA'', itemB'']) stateAB = ([GetSelected], stateAB)"
    by (rule refreshData_same_ids [OF nb, where sel = "Some [itemA'', itemB'']"])
       (simp_all add: host_simps sel example_ids)
  have s1: "swapTagToFolder (hostSelecting [itemA', itemB']) ''x'' stateAB =
     ([FoldersAreaProcessing, HostSwapTagToFolder ''x'' [itemA, itemB],
       Alert (''Swap Complete: Successfully moved 2 items to folder '' @ dquote @ ''x'' @
              dquote @ '' and removed '' @ dquote @ ''x'' @ dquote @ '' tag.''),
       GetSelected], stateAB)"
    using swapTagToFolder_outcome [of "''x''" "hostSelecting [itemA', itemB']" stateAB
        "okOutcome [itemA, itemB]"]
    by (simp add: host_simps sel r1 okOutcome_def showInt_def)
  have s2: "swapTagToFolder (hostPartial [itemA', itemB']) ''x'' stateAB =
     ([FoldersAreaProcessing, HostSwapTagToFolder ''x'' [itemA, itemB],
       Alert (''Swap Completed with Errors: Processed 1 items successfully, '' @
              ''but encountered 1 errors:'' @ newline @ newline @ ''B failed: locked''),
       GetSelected], stateAB)"
    using swapTagToFolder_outcome [of "''x''" "hostPartial [itemA', itemB']" stateAB
        partialOutcome]
    by (simp add: host_simps sel r2 partialOutcome_def errorsMessage_def showInt_def)
  have s3: "swapFolderToTag (hostSelecting [itemA'', itemB''])
         (Some \<lparr>folder_id = ''2'', name = ''Name of 2''\<rparr>) stateAB =
     ([TagsAreaProcessing,
       HostSwapFolderToTag \<lparr>folder_id = ''2'', name = ''Name of 2''\<rparr> [itemA, itemB],
       Alert (''Swap Complete: Successfully moved 2 items from folder '' @ dquote @
              ''Name of 2'' @ dquote @ '' and added '' @ dquote @ ''Name of 2'' @ dquote @
              '' as a tag.''),
       GetSelected], stateAB)"
    using swapFolderToTag_outcome [of "hostSelecting [itemA'', itemB'']"
        "\<lparr>folder_id = ''2'', name = ''Name of 2''\<rparr>" stateAB "okOutcome [itemA, itemB]"]
    by (simp add: host_simps sel r3 okOutcome_def showInt_def)
  have f1: "foldersOf itemA' = [''1'', ''2'', ''9'']" "foldersOf itemB' = [''2'', ''3'', ''9'']"
    "tagsOf itemA' = []" "tagsOf itemB' = [''y'']"
    "foldersOf itemA'' = [''1'']" "foldersOf itemB'' = [''3'']"
    by (simp_all add: foldersOf_def tagsOf_def itemA'_def itemB'_def itemA''_def itemB''_def)
  have ids: "commonFolderIds [itemA', itemB'] = [''2'', ''9'']"
    "commonFolderIds [itemA'', itemB''] = []"
    by (simp_all add: commonFolderIds_def filterCommon_def includesJs_def f1)
  have c1: "commonTags (snd (findCommonFoldersAndTags namedLookup
         (stateAB\<lparr>selectedItems := [itemA', itemB']\<rparr>))) = []"
    by (simp add: findCommon_state filterCommon_def includesJs_def f1)
  have c2: "map folder_id (commonFolders (snd (findCommonFoldersAndTags namedLookup
         (stateAB\<lparr>selectedItems := [itemA', itemB']\<rparr>)))) = [''2'', ''9'']"
    by (simp add: findCommon_state ids namedLookup_def)
  have c3: "commonFolders (snd (findCommonFoldersAndTags namedLookup
         (stateAB\<lparr>selectedItems := [itemA'', itemB'']\<rparr>))) = []"
    by (simp add: findCommon_state ids)
  from s1 s2 s3 c1 c2 c3 show ?thesis by blast
qed

section \<open>The reentrancy guard\<close>

lemma onSelected_flag:
  "onSelected r s = (fx, s', k) \<Longrightarrow>
     (case k of None \<Rightarrow> \<not> isRefreshing s'
      | Some ph \<Rightarrow> isRefreshing s' = isRefreshing s \<and> ph \<noteq> AwaitSelected)"
  by (auto simp: onSelected_def Let_def split: sum.splits if_splits)

lemma onFolders_flag:
  "isRefreshing (snd (onFolders r ids allTags s)) = isRefreshing s"
  by (simp add: onFolders_def Let_def split: sum.splits prod.splits)

lemma refreshFinish_flag:
  "\<not> isRefreshing (snd (refreshFinish previousFolders previousTags s))"
  by (simp add: refreshFinish_def Let_def)

lemma guardInvariant_step:
  assumes "guardInvariant c"
  shows "guardInvariant (stepEvent c e)"
proof -
  obtain s cycles where c: "c = (s, cycles)" by (cases c)
  from assms c have len: "length cycles \<le> 1" and flag: "isRefreshing s = (cycles \<noteq> [])"
    by (simp_all add: guardInvariant_def)
  have single: "\<exists>ph. cycles = [ph] \<and> i = 0" if "i < length cycles" for i
    using that len by (cases cycles) auto
  show ?thesis
  proof (cases e)
    case Invoke
    with c len flag show ?thesis
      by (cases "isRefreshing s") (simp_all add: guardInvariant_def refreshEnter_def)
  next
    case (SelectedReply i r)
    show ?thesis
    proof (cases "i < length cycles \<and> cycles ! i = AwaitSelected")
      case False
      with c SelectedReply assms show ?thesis by auto
    next
      case True
      with single [of i] have i0: "i = 0" and one: "cycles = [AwaitSelected]"
        by auto
      obtain fx s' k where o: "onSelected r s = (fx, s', k)" by (cases "onSelected r s")
      from onSelected_flag [OF o] flag one c SelectedReply o i0 show ?thesis
        by (cases k) (simp_all add: guardInvariant_def dropAt_def)
    qed
  next
    case (FoldersReply i r)
    show ?thesis
    proof (cases "i < length cycles")
      case False
      with c FoldersReply assms show ?thesis by simp
    next
      case True
      with single [of i] obtain ph where one: "cycles = [ph]" and i0: "i = 0"
        by auto
      show ?thesis
      proof (cases ph)
        case (AwaitFolders ids allTags pf pt)
        with c FoldersReply one i0 flag onFolders_flag [of r ids allTags s] show ?thesis
          by (simp add: guardInvariant_def)
      qed (use c FoldersReply one i0 assms in simp_all)
    qed
  next
    case (FindCommonReturned i)
    show ?thesis
    proof (cases "i < length cycles")
      case False
      with c FindCommonReturned assms show ?thesis by simp
    next
      case True
      with single [of i] obtain ph where one: "cycles = [ph]" and i0: "i = 0"
        by auto
      show ?thesis
      proof (cases ph)
        case (AwaitFindCommon pf pt)
        with c FindCommonReturned one i0 refreshFinish_flag [of pf pt s] show ?thesis
          by (simp add: guardInvariant_def dropAt_def)
      qed (use c FindCommonReturned one i0 assms in simp_all)
    qed
  qed
qed

lemma guardInvariant_foldl:
  "guardInvariant c \<Longrightarrow> guardInvariant (foldl stepEvent c evs)"
  by (induction evs arbitrary: c) (simp_all add: guardInvariant_step)

lemma guardInvariant_runEvents: "guardInvariant (runEvents evs)"
  unfolding runEvents_def
  by (rule guardInvariant_foldl) (simp add: guardInvariant_def initial_state_def)

lemma runCycle_refreshData: "runCycle h s = refreshData h s"
  by (simp add: runCycle_def refreshData_def refreshEnter_def onSelected_def onFolders_def
      refreshFinish_def findCommonFoldersAndTags_def Let_def
      split: sum.splits prod.splits)



text \<open>
  Claim C8. Whatever sequence of calls of \<open>refreshData\<close> and host answers has happened,
  at most one cycle is in flight, and the flag is up exactly while one is; a call that
  arrives then changes nothing, and a step that ends a cycle leaves the flag down. For any
  state: \<open>refreshData\<close> called with the flag up returns at once, with no effect and the
  state as it was; called with the flag down it returns with the flag down, whatever the
  host answers.
\<close>

theorem at_most_one_cycle_in_flight:
  "length (snd (runEvents evs)) \<le> 1
   \<and> (isRefreshing (fst (runEvents evs)) \<longleftrightarrow> snd (runEvents evs) \<noteq> [])
   \<and> (isRefreshing (fst (runEvents evs)) \<longrightarrow>
        stepEvent (runEvents evs) Invoke = runEvents evs)
   \<and> (length (snd (stepEvent (runEvents evs) e)) < length (snd (runEvents evs)) \<longrightarrow>
        \<not> isRefreshing (fst (stepEvent (runEvents evs) e)))
   \<and> (isRefreshing s \<longrightarrow> refreshEnter s = ([], s, None) \<and> refreshData h s = ([], s))
   \<and> (\<not> isRefreshing s \<longrightarrow> \<not> isRefreshing (snd (refreshData h s)))"
proof -
  let ?c = "runEvents evs"
  have inv: "guardInvariant ?c"
    by (rule guardInvariant_runEvents)
  then have inv': "guardInvariant (stepEvent ?c e)"
    by (rule guardInvariant_step)
  from inv have a: "length (snd ?c) \<le> 1" and b: "isRefreshing (fst ?c) \<longleftrightarrow> snd ?c \<noteq> []"
    by (simp_all add: guardInvariant_def)
  have c: "stepEvent ?c Invoke = ?c" if "isRefreshing (fst ?c)"
    using that by (cases ?c) (simp add: refreshEnter_def)
  have d: "\<not> isRefreshing (fst (stepEvent ?c e))"
    if "length (snd (stepEvent ?c e)) < length (snd ?c)"
  proof -
    from that a have "length (snd (stepEvent ?c e)) = 0" by linarith
    then have "snd (stepEvent ?c e) = []" by simp
    with inv' show ?thesis by (simp add: guardInvariant_def)
  qed
  have e: "refreshEnter s = ([], s, None) \<and> refreshData h s = ([], s)" if "isRefreshing s"
    using that by (simp add: refreshEnter_def refreshData_busy)
  have f: "\<not> isRefreshing (snd (refreshData h s))" if "\<not> isRefreshing s"
    using that by (rule refreshData_resets_flag)
  from a b c d e f show ?thesis by blast
qed

theorem at_most_one_cycle_in_flight_witness:
  "isRefreshing (fst (runEvents [Invoke]))
   \<and> snd (runEvents [Invoke]) = [AwaitSelected]
   \<and> stepEvent (runEvents [Invoke]) Invoke = runEvents [Invoke]
   \<and> length (snd (stepEvent (runEvents [Invoke]) (SelectedReply 0 (Inl (Error ''fetch failed'')))))
       < length (snd (runEvents [Invoke]))
   \<and> \<not> isRefreshing
        (fst (stepEvent (runEvents [Invoke]) (SelectedReply 0 (Inl (Error ''fetch failed'')))))
   \<and> \<not> isRefreshing stateAB
   \<and> \<not> isRefreshing (snd (refreshData hostFetchFailing stateAB))"
proof -
  have r: "runEvents [Invoke] = (initial_state\<lparr>isRefreshing := True\<rparr>, [AwaitSelected])"
    by (simp add: runEvents_def refreshEnter_def initial_state_def)
  have a: "isRefreshing (fst (runEvents [Invoke]))" "snd (runEvents [Invoke]) = [AwaitSelected]"
    by (simp_all add: r)
  have b: "length (snd (stepEvent (runEvents [Invoke])
              (SelectedReply 0 (Inl (Error ''fetch failed'')))))
       < length (snd (runEvents [Invoke]))"
    by (simp add: r onSelected_def dropAt_def)
  have c: "\<not> isRefreshing stateAB"
    by (simp add: stateAB_def)
  from a b c
    at_most_one_cycle_in_flight [of "[Invoke]"
      "SelectedReply 0 (Inl (Error ''fetch failed''))" stateAB hostFetchFailing]
  show ?thesis by blast
qed



text \<open>
  A run: while the first cycle waits, three more calls are dropped; the failed lookup gives
  the mock folder; the cycle ends with the flag down.
\<close>

lemma guard_example_run:
  "runEvents [Invoke, Invoke, SelectedReply 0 (Inr (Some [itemA, itemB])), Invoke,
              FoldersReply 0 (Inl (Error ''lookup failed'')), Invoke] =
     (\<lparr>selectedItems = [itemA, itemB],
       commonFolders = [\<lparr>folder_id = ''2'', name = ''Folder 2''\<rparr>],
       commonTags = [''x''], isRefreshing = True\<rparr>, [AwaitFindCommon [] []])"
  "runEvents [Invoke, Invoke, SelectedReply 0 (Inr (Some [itemA, itemB])), Invoke,
              FoldersReply 0 (Inl (Error ''lookup failed'')), Invoke, FindCommonReturned 0] =
     (\<lparr>selectedItems = [itemA, itemB],
       commonFolders = [\<lparr>folder_id = ''2'', name = ''Folder 2''\<rparr>],
       commonTags = [''x''], isRefreshing = False\<rparr>, [])"
  by code_simp+

end
